theory Spec2Isabelle
  imports Complex_Main "HOL-Library.AList"
begin

section \<open>The gateway's request pipeline: data model\<close>

text \<open>
  The development follows the Go sources of the gateway service:
  \<^verbatim>\<open>internal/proxy/proxy.go\<close> (the reverse proxy and the router set-up),
  \<^verbatim>\<open>internal/handler/gateway.go\<close> (the terminal handler),
  \<^verbatim>\<open>internal/auth/jwt.go\<close> and the middleware files (rate limiting, authentication,
  CORS, logging, tracing).

  Go strings are byte strings and are modelled as \<open>string\<close>. An \<open>error\<close> is modelled
  by its message (\<open>err.Error()\<close>): the gateway itself inspects errors only through
  their text. Go's \<open>int\<close> is modelled as \<open>int\<close>; durations are
  \<open>time.Duration\<close> values, a number of nanoseconds.
\<close>

type_synonym error = string

subsection \<open>The functions of package strings that the gateway calls\<close>

text \<open>
  \<open>strings.ToLower\<close> and \<open>strings.TrimSpace\<close> are modelled on ASCII input, where Go
  works byte by byte: \<open>'A'..'Z'\<close> become \<open>'a'..'z'\<close> (bit 5 is set, which adds 32) and
  every other byte stays.
\<close>

definition is_upper :: "char \<Rightarrow> bool" where
  "is_upper c = (let n = (of_char c :: nat) in 65 \<le> n \<and> n \<le> 90)"

definition is_lower :: "char \<Rightarrow> bool" where
  "is_lower c = (let n = (of_char c :: nat) in 97 \<le> n \<and> n \<le> 122)"

fun lower_byte :: "char \<Rightarrow> char" where
  "lower_byte (Char b0 b1 b2 b3 b4 b5 b6 b7) =
     (if is_upper (Char b0 b1 b2 b3 b4 b5 b6 b7)
      then Char b0 b1 b2 b3 b4 True b6 b7
      else Char b0 b1 b2 b3 b4 b5 b6 b7)"

fun upper_byte :: "char \<Rightarrow> char" where
  "upper_byte (Char b0 b1 b2 b3 b4 b5 b6 b7) =
     (if is_lower (Char b0 b1 b2 b3 b4 b5 b6 b7)
      then Char b0 b1 b2 b3 b4 False b6 b7
      else Char b0 b1 b2 b3 b4 b5 b6 b7)"

definition ToLower :: "string \<Rightarrow> string" where
  "ToLower s = map lower_byte s"

definition HasPrefix :: "string \<Rightarrow> string \<Rightarrow> bool" where
  "HasPrefix s p = (length p \<le> length s \<and> take (length p) s = p)"

definition TrimPrefix :: "string \<Rightarrow> string \<Rightarrow> string" where
  "TrimPrefix s p = (if HasPrefix s p then drop (length p) s else s)"

fun Contains :: "string \<Rightarrow> string \<Rightarrow> bool" where
  "Contains [] sub = (sub = [])"
| "Contains (c # s) sub = (HasPrefix (c # s) sub \<or> Contains s sub)"

text \<open>
  \<open>strings.SplitN(s, sep, n)\<close> for a one-byte separator and \<open>n > 0\<close>: at most \<open>n\<close>
  pieces, the last one the unsplit rest. \<open>split_upto k\<close> makes at most \<open>k\<close> cuts, so
  \<open>SplitN(s, sep, 2)\<close> is \<open>split_upto 1\<close>; \<open>strings.Split(s, sep)\<close> cuts at every
  separator.
\<close>

fun split_upto :: "nat \<Rightarrow> char \<Rightarrow> string \<Rightarrow> string list" where
  "split_upto 0 sep s = [s]"
| "split_upto (Suc k) sep s =
     (case dropWhile (\<lambda>c. c \<noteq> sep) s of
        [] \<Rightarrow> [s]
      | _ # rest \<Rightarrow> takeWhile (\<lambda>c. c \<noteq> sep) s # split_upto k sep rest)"

definition SplitN2 :: "string \<Rightarrow> char \<Rightarrow> string list" where
  "SplitN2 s sep = split_upto 1 sep s"

definition Split :: "string \<Rightarrow> char \<Rightarrow> string list" where
  "Split s sep = split_upto (length s) sep s"

definition is_space :: "char \<Rightarrow> bool" where
  "is_space c = (c \<in> set [CHR 0x09, CHR 0x0A, CHR 0x0B, CHR 0x0C, CHR 0x0D, CHR 0x20])"

definition TrimSpace :: "string \<Rightarrow> string" where
  "TrimSpace s = rev (dropWhile is_space (rev (dropWhile is_space s)))"

text \<open>\<open>strconv.Itoa\<close>: the decimal digits of an integer, with a minus sign below zero.\<close>

definition digit_char :: "nat \<Rightarrow> char" where
  "digit_char d = (''0123456789'' ! d)"

fun digits :: "nat \<Rightarrow> string" where
  "digits n = (if n < 10 then [digit_char n] else digits (n div 10) @ [digit_char (n mod 10)])"

declare digits.simps [simp del]

definition Itoa :: "int \<Rightarrow> string" where
  "Itoa i = (if i < 0 then CHR ''-'' # digits (nat (- i)) else digits (nat i))"

subsection \<open>HTTP headers (net/http's Header)\<close>

text \<open>
  A \<open>http.Header\<close> is a map from header names to lists of values; it is an association
  list here, because the proxy iterates over it. \<open>Get\<close>, \<open>Set\<close> and \<open>Add\<close>
  canonicalise the name they are given (\<open>textproto.CanonicalMIMEHeaderKey\<close>): a name
  made of token bytes gets an upper-case letter first and after every hyphen and lower-case
  letters elsewhere, any other name stays as it is.
\<close>

type_synonym header = "(string \<times> string list) list"

definition validHeaderFieldByte :: "char \<Rightarrow> bool" where
  "validHeaderFieldByte c =
     (let n = (of_char c :: nat) in
        (48 \<le> n \<and> n \<le> 57) \<or> (65 \<le> n \<and> n \<le> 90) \<or> (97 \<le> n \<and> n \<le> 122) \<or>
        n \<in> set [33, 35, 36, 37, 38, 39, 42, 43, 45, 46, 94, 95, 96, 124, 126])"

fun canon_bytes :: "bool \<Rightarrow> string \<Rightarrow> string" where
  "canon_bytes upper [] = []"
| "canon_bytes upper (c # cs) =
     (let c' = (if upper then upper_byte c else lower_byte c)
      in c' # canon_bytes (c' = CHR ''-'') cs)"

definition CanonicalMIMEHeaderKey :: "string \<Rightarrow> string" where
  "CanonicalMIMEHeaderKey s = (if list_all validHeaderFieldByte s then canon_bytes True s else s)"

definition Header_Get :: "header \<Rightarrow> string \<Rightarrow> string" where
  "Header_Get h key =
     (case map_of h (CanonicalMIMEHeaderKey key) of
        None \<Rightarrow> []
      | Some [] \<Rightarrow> []
      | Some (v # _) \<Rightarrow> v)"

definition Header_Set :: "header \<Rightarrow> string \<Rightarrow> string \<Rightarrow> header" where
  "Header_Set h key v = AList.update (CanonicalMIMEHeaderKey key) [v] h"

definition Header_Add :: "header \<Rightarrow> string \<Rightarrow> string \<Rightarrow> header" where
  "Header_Add h key v =
     (let k = CanonicalMIMEHeaderKey key
      in AList.update k ((case map_of h k of None \<Rightarrow> [] | Some vs \<Rightarrow> vs) @ [v]) h)"

subsection \<open>Requests, responses and the response writer\<close>

text \<open>
  A body is an \<open>io.Reader\<close>: the bytes not yet read, and the error the stream ends with
  (none when it ends with EOF). \<open>io.ReadAll\<close> drains it.
\<close>

datatype reader = Reader (pending: string) (failure: "error option")

definition ReadAll :: "reader \<Rightarrow> string \<times> error option \<times> reader" where
  "ReadAll rd = (pending rd, failure rd, Reader [] (failure rd))"

definition NewReader :: "string \<Rightarrow> reader" where
  "NewReader bs = Reader bs None"

text \<open>The inbound \<open>*http.Request\<close>, with the fields the gateway reads.\<close>

record request =
  Method :: string
  Path :: string
  Header :: header
  Body :: "reader option"
  Host :: string
  RemoteAddr :: string
  TLS :: bool

text \<open>The request the proxy builds for the upstream service.\<close>

record upstream_request =
  Up_Method :: string
  Up_URL :: string
  Up_Header :: header
  Up_Body :: "string option"

record response =
  StatusCode :: int
  Resp_Header :: header
  Resp_Body :: reader

text \<open>
  A \<open>http.ResponseWriter\<close>: the header map handlers write to, and what has gone to the
  client. The first \<open>WriteHeader\<close> fixes the status and sends the header map as it is
  then; a \<open>Write\<close> before any \<open>WriteHeader\<close> sends status 200 first.
\<close>

record ResponseWriter =
  W_Header :: header
  W_Status :: "int option"
  W_Sent :: header
  W_Body :: string

definition new_writer :: ResponseWriter where
  "new_writer = \<lparr>W_Header = [], W_Status = None, W_Sent = [], W_Body = []\<rparr>"

definition WriteHeader :: "int \<Rightarrow> ResponseWriter \<Rightarrow> ResponseWriter" where
  "WriteHeader code w =
     (if W_Status w = None then w\<lparr>W_Status := Some code, W_Sent := W_Header w\<rparr> else w)"

definition Write :: "string \<Rightarrow> ResponseWriter \<Rightarrow> ResponseWriter" where
  "Write bs w =
     (let w' = (if W_Status w = None then WriteHeader 200 w else w)
      in w'\<lparr>W_Body := W_Body w' @ bs\<rparr>)"

definition W_Set :: "string \<Rightarrow> string \<Rightarrow> ResponseWriter \<Rightarrow> ResponseWriter" where
  "W_Set key v w = w\<lparr>W_Header := Header_Set (W_Header w) key v\<rparr>"

section \<open>The reverse proxy (proxy.go)\<close>

subsection \<open>Configuration and environment\<close>

record ServiceEndpoint =
  BaseURL :: string
  Timeout :: int
  Retries :: int

record ServicesConfig =
  AuthService :: ServiceEndpoint
  URLService :: ServiceEndpoint
  NotificationService :: ServiceEndpoint

text \<open>
  What the proxy gets from outside the repository:
  \<^item> \<open>url_Parse s\<close> is \<open>url.Parse(s)\<close> followed by \<open>String()\<close>, or the parse error;
  \<^item> \<open>client_Do k req\<close> is what \<open>p.client.Do(req)\<close> returns on the attempt with index
    \<open>k\<close>: a network-level error or the upstream's response;
  \<^item> \<open>ctx_Done k\<close> says how the \<open>select\<close> of the backoff after attempt \<open>k\<close> ends:
    \<open>None\<close> when the timer fires first, \<open>Some e\<close> when the parent context is done
    first, \<open>e\<close> being \<open>ctx.Err()\<close>.
\<close>

record env =
  url_Parse :: "string \<Rightarrow> error + string"
  client_Do :: "nat \<Rightarrow> upstream_request \<Rightarrow> error + response"
  ctx_Done :: "nat \<Rightarrow> error option"

subsection \<open>Header hygiene and forwarding headers\<close>

definition shouldRetry :: "int \<Rightarrow> bool" where
  "shouldRetry statusCode = (statusCode \<ge> 500 \<and> statusCode \<noteq> 501)"

definition hopByHopHeaders :: "string list" where
  "hopByHopHeaders =
     [''Connection'', ''Keep-Alive'', ''Proxy-Authenticate'', ''Proxy-Authorization'',
      ''Te'', ''Trailers'', ''Transfer-Encoding'', ''Upgrade'']"

definition isHopByHopHeader :: "string \<Rightarrow> bool" where
  "isHopByHopHeader name =
     (let name' = ToLower name in list_ex (\<lambda>header. ToLower header = name') hopByHopHeaders)"

text \<open>The proxy's \<open>getClientIP\<close>: the first entry of the forwarded-for chain.\<close>

definition cut_colon :: "string \<Rightarrow> string option" where
  "cut_colon s =
     (if CHR '':'' \<in> set s then Some (takeWhile (\<lambda>c. c \<noteq> CHR '':'') s) else None)"

definition getClientIP :: "request \<Rightarrow> string" where
  "getClientIP r =
     (let xff = Header_Get (Header r) ''X-Forwarded-For'';
          parts = Split xff (CHR '','')
      in if xff \<noteq> [] \<and> length parts > 0 then TrimSpace (parts ! 0)
         else (let xri = Header_Get (Header r) ''X-Real-IP'' in
               if xri \<noteq> [] then xri
               else (case cut_colon (RemoteAddr r) of
                       Some host \<Rightarrow> host
                     | None \<Rightarrow> RemoteAddr r)))"

definition getScheme :: "request \<Rightarrow> string" where
  "getScheme r =
     (if TLS r then ''https''
      else (let proto = Header_Get (Header r) ''X-Forwarded-Proto'' in
            if proto \<noteq> [] then proto else ''http''))"

text \<open>
  The two header loops of \<open>createProxyRequest\<close> and \<open>copyResponse\<close> are the same:
  every value of every name that is not hop-by-hop is added to the destination.
\<close>

definition copyHeaders :: "header \<Rightarrow> header \<Rightarrow> header" where
  "copyHeaders src dst =
     fold (\<lambda>(name, values) d.
             if \<not> isHopByHopHeader name
             then fold (\<lambda>v d'. Header_Add d' name v) values d
             else d)
          src dst"

subsection \<open>Building the upstream request\<close>

text \<open>
  \<open>http.NewRequestWithContext\<close> refuses a method that is not a token; the empty method
  stands for GET. It parses the URL it is given once more.
\<close>

definition validMethod :: "string \<Rightarrow> bool" where
  "validMethod m = (m \<noteq> [] \<and> list_all validHeaderFieldByte m)"

definition NewRequestWithContext ::
  "env \<Rightarrow> string \<Rightarrow> string \<Rightarrow> string option \<Rightarrow> error + upstream_request" where
  "NewRequestWithContext e m u body =
     (let m' = (if m = [] then ''GET'' else m) in
      if \<not> validMethod m' then Inl (''net/http: invalid method '' @ m')
      else (case url_Parse e u of
              Inl err \<Rightarrow> Inl err
            | Inr u' \<Rightarrow> Inr \<lparr>Up_Method = m', Up_URL = u', Up_Header = [], Up_Body = body\<rparr>))"

text \<open>
  \<open>createProxyRequest\<close> changes the request it is given (the body is replaced by a fresh
  reader), so the model returns the original request next to the result.
\<close>

definition createProxyRequest ::
  "env \<Rightarrow> request \<Rightarrow> string \<Rightarrow> (error + upstream_request) \<times> request" where
  "createProxyRequest e originalReq targetURL =
     (case url_Parse e targetURL of
        Inl err \<Rightarrow> (Inl (''invalid target URL: '' @ err), originalReq)
      | Inr target \<Rightarrow>
          (case (case Body originalReq of
                   None \<Rightarrow> (None, None, originalReq)
                 | Some rd \<Rightarrow>
                     (case ReadAll rd of
                        (bodyBytes, Some err, rd') \<Rightarrow>
                          (None, Some err, originalReq\<lparr>Body := Some rd'\<rparr>)
                      | (bodyBytes, None, rd') \<Rightarrow>
                          (Some bodyBytes, None,
                           originalReq\<lparr>Body := Some (NewReader bodyBytes)\<rparr>))) of
             (body, Some err, orig') \<Rightarrow> (Inl (''failed to read request body: '' @ err), orig')
           | (body, None, orig') \<Rightarrow>
               (case NewRequestWithContext e (Method orig') target body of
                  Inl err \<Rightarrow> (Inl (''failed to create request: '' @ err), orig')
                | Inr req \<Rightarrow>
                    (let h0 = copyHeaders (Header orig') (Up_Header req);
                         h1 = Header_Set h0 ''X-Forwarded-For'' (getClientIP orig');
                         h2 = Header_Set h1 ''X-Forwarded-Proto'' (getScheme orig');
                         h3 = Header_Set h2 ''X-Forwarded-Host'' (Host orig');
                         h4 = Header_Set h3 ''X-Gateway'' ''hcaas-gateway''
                     in (Inr (req\<lparr>Up_Header := h4\<rparr>), orig')))))"

subsection \<open>The retry loop\<close>

text \<open>
  What the loop does that can be seen from outside: a request sent to the upstream on an
  attempt, a response body closed before a retry, a backoff slept in full, and a backoff
  cut short by the parent context. Durations are in nanoseconds.
\<close>

datatype event =
    Sent nat upstream_request
  | Closed int
  | Slept int
  | Interrupted int

definition Millisecond :: int where
  "Millisecond = 1000000"

definition backoff_of :: "int \<Rightarrow> int" where
  "backoff_of attempt = (attempt + 1) * 100 * Millisecond"

text \<open>
  One pass through the body of the \<open>for\<close> loop: either the function returns, or the
  loop goes on with a new \<open>lastErr\<close>.
\<close>

datatype step = Return "error + response" | Again error

definition proxy_attempt ::
  "env \<Rightarrow> ServiceEndpoint \<Rightarrow> string \<Rightarrow> int \<Rightarrow> request \<Rightarrow> step \<times> request \<times> event list" where
  "proxy_attempt e serviceConfig targetURL attempt originalReq =
     (case createProxyRequest e originalReq targetURL of
        (Inl err, orig') \<Rightarrow> (Return (Inl (''failed to create proxy request: '' @ err)), orig', [])
      | (Inr req, orig') \<Rightarrow>
          (case (case client_Do e (nat attempt) req of
                   Inr resp \<Rightarrow>
                     if \<not> shouldRetry (StatusCode resp) then Inr resp
                     else Inl (''upstream returned retryable status: '' @ Itoa (StatusCode resp),
                               [Closed (StatusCode resp)])
                 | Inl err \<Rightarrow> Inl (err, [])) of
             Inr resp \<Rightarrow> (Return (Inr resp), orig', [Sent (nat attempt) req])
           | Inl (lastErr, cl) \<Rightarrow>
               if attempt < Retries serviceConfig then
                 (case ctx_Done e (nat attempt) of
                    None \<Rightarrow>
                      (Again lastErr, orig',
                       Sent (nat attempt) req # cl @ [Slept (backoff_of attempt)])
                  | Some cerr \<Rightarrow>
                      (Return (Inl cerr), orig',
                       Sent (nat attempt) req # cl @ [Interrupted (backoff_of attempt)]))
               else (Again lastErr, orig', Sent (nat attempt) req # cl)))"

text \<open>\<open>fmt.Errorf("...: %w", lastErr)\<close> prints a nil error as \<open>%!w(<nil>)\<close>.\<close>

definition fmt_w :: "error option \<Rightarrow> string" where
  "fmt_w lastErr = (case lastErr of None \<Rightarrow> ''%!w(<nil>)'' | Some err \<Rightarrow> err)"

function proxyWithRetries_from ::
  "env \<Rightarrow> ServiceEndpoint \<Rightarrow> string \<Rightarrow> int \<Rightarrow> error option \<Rightarrow> request \<Rightarrow> event list
   \<Rightarrow> (error + response) \<times> request \<times> event list" where
  "proxyWithRetries_from e serviceConfig targetURL attempt lastErr originalReq tr =
     (if attempt \<le> Retries serviceConfig then
        (case proxy_attempt e serviceConfig targetURL attempt originalReq of
           (Return res, orig', evs) \<Rightarrow> (res, orig', tr @ evs)
         | (Again err, orig', evs) \<Rightarrow>
             proxyWithRetries_from e serviceConfig targetURL (attempt + 1) (Some err) orig'
               (tr @ evs))
      else (Inl (''all retry attempts failed: '' @ fmt_w lastErr), originalReq, tr))"
  by pat_completeness auto
termination
  by (relation "measure (\<lambda>(e, serviceConfig, targetURL, attempt, lastErr, originalReq, tr).
                  nat (Retries serviceConfig + 1 - attempt))") auto

declare proxyWithRetries_from.simps [simp del]

definition proxyWithRetries ::
  "env \<Rightarrow> request \<Rightarrow> string \<Rightarrow> ServiceEndpoint \<Rightarrow> (error + response) \<times> request \<times> event list" where
  "proxyWithRetries e originalReq targetURL serviceConfig =
     proxyWithRetries_from e serviceConfig targetURL 0 None originalReq []"

text \<open>Projections of a trace.\<close>

fun sleeps :: "event list \<Rightarrow> int list" where
  "sleeps [] = []"
| "sleeps (Slept d # evs) = d # sleeps evs"
| "sleeps (Interrupted d # evs) = d # sleeps evs"
| "sleeps (_ # evs) = sleeps evs"

fun attempts :: "event list \<Rightarrow> nat list" where
  "attempts [] = []"
| "attempts (Sent k req # evs) = k # attempts evs"
| "attempts (_ # evs) = attempts evs"

subsection \<open>Relaying the response, routing, and the proxy entry point\<close>

text \<open>
  \<open>copyResponse\<close>: the header loop, \<open>WriteHeader\<close>, then \<open>io.Copy\<close>, which writes the
  bytes the body yields and returns the error the body ends with.
\<close>

definition copyResponse :: "ResponseWriter \<Rightarrow> response \<Rightarrow> error option \<times> ResponseWriter" where
  "copyResponse w resp =
     (let w1 = w\<lparr>W_Header := copyHeaders (Resp_Header resp) (W_Header w)\<rparr>;
          w2 = WriteHeader (StatusCode resp) w1
      in (case ReadAll (Resp_Body resp) of
            (bs, err, rd') \<Rightarrow> (err, if bs = [] then w2 else Write bs w2)))"

definition determineTarget :: "ServicesConfig \<Rightarrow> request \<Rightarrow> error + (string \<times> string)" where
  "determineTarget config r =
     (let path = Path r in
      if HasPrefix path ''/auth/'' \<or> HasPrefix path ''/me'' then
        Inr (''auth'', BaseURL (AuthService config) @ ''/'' @ TrimPrefix path ''/'')
      else if HasPrefix path ''/urls'' then
        Inr (''url'', BaseURL (URLService config) @ path)
      else if HasPrefix path ''/notifications'' then
        Inr (''notification'', BaseURL (NotificationService config) @ path)
      else Inl (''no route found for path: '' @ path))"

definition getServiceConfig :: "ServicesConfig \<Rightarrow> string \<Rightarrow> error + ServiceEndpoint" where
  "getServiceConfig config serviceName =
     (if serviceName = ''auth'' then Inr (AuthService config)
      else if serviceName = ''url'' then Inr (URLService config)
      else if serviceName = ''notification'' then Inr (NotificationService config)
      else Inl (''unknown service: '' @ serviceName))"

text \<open>
  \<open>ProxyRequest\<close> returns its error (none on success), the writer, the request object and
  the trace of the retry loop. The metric and log calls of the source write nothing to the
  client and are left out.
\<close>

definition ProxyRequest ::
  "env \<Rightarrow> ServicesConfig \<Rightarrow> ResponseWriter \<Rightarrow> request
   \<Rightarrow> error option \<times> ResponseWriter \<times> request \<times> event list" where
  "ProxyRequest e config w r =
     (case determineTarget config r of
        Inl err \<Rightarrow> (Some (''failed to determine target: '' @ err), w, r, [])
      | Inr (serviceName, targetURL) \<Rightarrow>
          (case getServiceConfig config serviceName of
             Inl err \<Rightarrow> (Some (''failed to get service config: '' @ err), w, r, [])
           | Inr serviceConfig \<Rightarrow>
               (case proxyWithRetries e r targetURL serviceConfig of
                  (Inl err, r', tr) \<Rightarrow> (Some (''failed to proxy request: '' @ err), w, r', tr)
                | (Inr resp, r', tr) \<Rightarrow>
                    (case copyResponse w resp of
                       (Some err, w') \<Rightarrow> (Some (''failed to copy response: '' @ err), w', r', tr)
                     | (None, w') \<Rightarrow> (None, w', r', tr)))))"

section \<open>The terminal handler (gateway.go)\<close>

text \<open>The body the handler writes: \<open>{"error": "<message>", "code": "<code>"}\<close>.\<close>

definition error_json :: "string \<Rightarrow> string \<Rightarrow> string" where
  \<open>error_json message code = ''{"error": "'' @ message @ ''", "code": "'' @ code @ ''"}''\<close>

definition set_cors_headers :: "ResponseWriter \<Rightarrow> ResponseWriter" where
  "set_cors_headers w =
     W_Set ''Access-Control-Allow-Headers'' ''Authorization, Content-Type''
       (W_Set ''Access-Control-Allow-Methods'' ''GET, POST, PUT, DELETE, OPTIONS''
         (W_Set ''Access-Control-Allow-Origin'' ''*'' w))"

definition handleProxyError :: "ResponseWriter \<Rightarrow> error \<Rightarrow> ResponseWriter" where
  "handleProxyError w err =
     (let w1 = W_Set ''Content-Type'' ''application/json'' (set_cors_headers w);
          errStr = err;
          (statusCode, message, code) =
            (if Contains errStr ''no route found'' then
               (404, ''Endpoint not found'', ''ROUTE_NOT_FOUND'')
             else if Contains errStr ''timeout'' then
               (504, ''Request timeout'', ''TIMEOUT_ERROR'')
             else if Contains errStr ''connection'' then
               (502, ''Upstream service unavailable'', ''SERVICE_UNAVAILABLE'')
             else (500 :: int, ''Internal server error'', ''PROXY_ERROR''))
      in Write (error_json message code) (WriteHeader statusCode w1))"

definition ProxyHandler ::
  "env \<Rightarrow> ServicesConfig \<Rightarrow> ResponseWriter \<Rightarrow> request \<Rightarrow> ResponseWriter \<times> request \<times> event list" where
  "ProxyHandler e config w r =
     (case ProxyRequest e config w r of
        (Some err, w', r', tr) \<Rightarrow> (handleProxyError w' err, r', tr)
      | (None, w', r', tr) \<Rightarrow> (w', r', tr))"

text \<open>
  The classification as the specification words it: a failure is of exactly one class, which
  fixes the status and the code. The class is read off the error text, as the specification
  says the gateway does: a mention of a missing route, else of a timeout, else of a connection.
\<close>

datatype failure_class = NotFound | UpstreamTimeout | ConnectionFailure | OtherFailure

definition spec_classify :: "error \<Rightarrow> failure_class" where
  "spec_classify err =
     (if Contains err ''no route found'' then NotFound
      else if Contains err ''timeout'' then UpstreamTimeout
      else if Contains err ''connection'' then ConnectionFailure
      else OtherFailure)"

fun spec_status :: "failure_class \<Rightarrow> int" where
  "spec_status NotFound = 404"
| "spec_status UpstreamTimeout = 504"
| "spec_status ConnectionFailure = 502"
| "spec_status OtherFailure = 500"

fun spec_code :: "failure_class \<Rightarrow> string" where
  "spec_code NotFound = ''ROUTE_NOT_FOUND''"
| "spec_code UpstreamTimeout = ''TIMEOUT_ERROR''"
| "spec_code ConnectionFailure = ''SERVICE_UNAVAILABLE''"
| "spec_code OtherFailure = ''PROXY_ERROR''"

fun spec_message :: "failure_class \<Rightarrow> string" where
  "spec_message NotFound = ''Endpoint not found''"
| "spec_message UpstreamTimeout = ''Request timeout''"
| "spec_message ConnectionFailure = ''Upstream service unavailable''"
| "spec_message OtherFailure = ''Internal server error''"

subsection \<open>Vocabulary for runs of the retry loop\<close>

text \<open>
  An outcome of \<open>client.Do\<close> after which the loop goes on: a network-level error, or a
  response whose status \<open>shouldRetry\<close> accepts.
\<close>

definition retryable :: "error + response \<Rightarrow> bool" where
  "retryable out = (case out of Inl err \<Rightarrow> True | Inr resp \<Rightarrow> shouldRetry (StatusCode resp))"

text \<open>The events of one failed attempt, and of a sequence of failed attempts with their backoffs.\<close>

definition retry_events :: "env \<Rightarrow> upstream_request \<Rightarrow> nat \<Rightarrow> event list" where
  "retry_events e req k =
     Sent k req # (case client_Do e k req of Inl err \<Rightarrow> [] | Inr resp \<Rightarrow> [Closed (StatusCode resp)])"

definition rounds :: "env \<Rightarrow> upstream_request \<Rightarrow> nat list \<Rightarrow> event list" where
  "rounds e req ks = concat (map (\<lambda>k. retry_events e req k @ [Slept (backoff_of (int k))]) ks)"

section \<open>Example inputs\<close>

definition ex_cfg :: ServiceEndpoint where
  "ex_cfg = \<lparr>BaseURL = ''http://hcaas_web:8080'', Timeout = 10000000000, Retries = 3\<rparr>"

definition ex_request :: request where
  "ex_request =
     \<lparr>Method = ''POST'', Path = ''/urls'',
      Header = [(''Content-Type'', [''application/json'']), (''Connection'', [''keep-alive'']),
                (''Accept'', [''text/html'', ''*/*''])],
      Body = Some (Reader ''{}'' None), Host = ''gw.example'',
      RemoteAddr = ''10.0.0.7:5123'', TLS = False\<rparr>"

definition ex_url :: string where
  "ex_url = ''http://hcaas_web:8080/urls''"

definition ex_upstream :: upstream_request where
  "ex_upstream =
     \<lparr>Up_Method = ''POST'', Up_URL = ''http://hcaas_web:8080/urls'',
      Up_Header = [(''Content-Type'', [''application/json'']), (''Accept'', [''text/html'', ''*/*'']),
                   (''X-Forwarded-For'', [''10.0.0.7'']), (''X-Forwarded-Proto'', [''http'']),
                   (''X-Forwarded-Host'', [''gw.example'']), (''X-Gateway'', [''hcaas-gateway''])],
      Up_Body = Some ''{}''\<rparr>"

definition ex_resp :: "int \<Rightarrow> response" where
  "ex_resp code = \<lparr>StatusCode = code, Resp_Header = [(''Content-Type'', [''text/plain''])],
                    Resp_Body = Reader ''ok'' None\<rparr>"

text \<open>
  An upstream that answers attempt \<open>k\<close> with status \<open>codes k\<close>, under a parent context
  that is done during the backoffs listed in \<open>cancelled\<close>.
\<close>

definition ex_env :: "(nat \<Rightarrow> int) \<Rightarrow> nat list \<Rightarrow> env" where
  "ex_env codes cancelled =
     \<lparr>url_Parse = Inr,
      client_Do = (\<lambda>k req. Inr (ex_resp (codes k))),
      ctx_Done = (\<lambda>k. if k \<in> set cancelled then Some ''context canceled'' else None)\<rparr>"

definition ex_services :: ServicesConfig where
  "ex_services =
     \<lparr>AuthService = \<lparr>BaseURL = ''http://hcaas_auth:8081'', Timeout = 10000000000, Retries = 3\<rparr>,
      URLService = ex_cfg,
      NotificationService =
        \<lparr>BaseURL = ''http://hcaas_notification:8082'', Timeout = 10000000000, Retries = 3\<rparr>\<rparr>"

definition ex_flaky :: env where
  "ex_flaky = ex_env (\<lambda>k. if k < 2 then 503 else 200) []"

definition ex_always_501 :: env where
  "ex_always_501 = ex_env (\<lambda>k. 501) []"

definition ex_cancelled :: env where
  "ex_cancelled = ex_env (\<lambda>k. 503) [1]"

section \<open>Properties of the retry loop\<close>

lemma ReadAll_NewReader [simp]: "ReadAll (NewReader bs) = (bs, None, Reader [] None)"
  by (simp add: ReadAll_def NewReader_def)

lemma getClientIP_Body [simp]: "getClientIP (r\<lparr>Body := b\<rparr>) = getClientIP r"
  by (simp add: getClientIP_def Let_def split: option.splits)

lemma getScheme_Body [simp]: "getScheme (r\<lparr>Body := b\<rparr>) = getScheme r"
  by (simp add: getScheme_def Let_def)

text \<open>
  Once a request has been built, building it again from the request object that the first
  call left behind gives the same upstream request and leaves the object as it is.
\<close>

lemma createProxyRequest_again:
  assumes "createProxyRequest e r url = (Inr req, r1)"
  shows "createProxyRequest e r1 url = (Inr req, r1)"
proof (cases "url_Parse e url")
  case (Inl err)
  with assms show ?thesis by (simp add: createProxyRequest_def)
next
  case (Inr target)
  show ?thesis
  proof (cases "Body r")
    case None
    with assms Inr show ?thesis
      by (auto simp: createProxyRequest_def Let_def split: sum.splits)
  next
    case (Some rd)
    show ?thesis
    proof (cases "failure rd")
      case None
      with assms Inr Some show ?thesis
        by (auto simp: createProxyRequest_def ReadAll_def NewReader_def Let_def split: sum.splits)
    next
      case (Some err)
      with assms Inr \<open>Body r = Some rd\<close> show ?thesis
        by (auto simp: createProxyRequest_def ReadAll_def Let_def split: sum.splits)
    qed
  qed
qed

lemma proxy_attempt_retry:
  assumes "createProxyRequest e r url = (Inr req, r1)"
    and "retryable (client_Do e k req)" and "int k < Retries cfg" and "ctx_Done e k = None"
  shows "\<exists>err. proxy_attempt e cfg url (int k) r =
           (Again err, r1, retry_events e req k @ [Slept (backoff_of (int k))])"
proof (cases "client_Do e k req")
  case (Inl err)
  with assms show ?thesis by (simp add: proxy_attempt_def retry_events_def)
next
  case (Inr resp)
  with assms show ?thesis by (simp add: proxy_attempt_def retry_events_def retryable_def)
qed

lemma proxy_attempt_cancelled:
  assumes "createProxyRequest e r url = (Inr req, r1)"
    and "retryable (client_Do e k req)" and "int k < Retries cfg" and "ctx_Done e k = Some cerr"
  shows "proxy_attempt e cfg url (int k) r =
           (Return (Inl cerr), r1, retry_events e req k @ [Interrupted (backoff_of (int k))])"
proof (cases "client_Do e k req")
  case (Inl err)
  with assms show ?thesis by (simp add: proxy_attempt_def retry_events_def)
next
  case (Inr resp)
  with assms show ?thesis by (simp add: proxy_attempt_def retry_events_def retryable_def)
qed

lemma proxy_attempt_final:
  assumes "createProxyRequest e r url = (Inr req, r1)"
    and "client_Do e k req = Inr resp" and "\<not> shouldRetry (StatusCode resp)"
  shows "proxy_attempt e cfg url (int k) r = (Return (Inr resp), r1, [Sent k req])"
  using assms by (simp add: proxy_attempt_def)

text \<open>
  The loop, started at attempt \<open>a\<close>, runs through the failed attempts \<open>a, ..., m - 1\<close>
  and returns what attempt \<open>m\<close> returns. Induction on the number of attempts left.
\<close>

lemma loop_runs_to:
  assumes fx: "createProxyRequest e r1 url = (Inr req, r1)"
    and fin: "proxy_attempt e cfg url (int m) r1 = (Return res, r1, evs)"
    and m: "int m \<le> Retries cfg"
    and retry: "\<forall>k. a \<le> k \<and> k < m \<longrightarrow> retryable (client_Do e k req) \<and> ctx_Done e k = None"
    and am: "a \<le> m"
  shows "proxyWithRetries_from e cfg url (int a) lastErr r1 tr =
           (res, r1, tr @ rounds e req [a..<m] @ evs)"
  using retry am
proof (induction "m - a" arbitrary: a lastErr tr)
  case 0
  then have "a = m" by simp
  then show ?case using fin m
    by (subst proxyWithRetries_from.simps) (simp add: rounds_def)
next
  case (Suc d)
  then have lt: "a < m" by simp
  with m have "int a < Retries cfg" by simp
  moreover have "retryable (client_Do e a req)" "ctx_Done e a = None" using Suc.prems lt by auto
  ultimately obtain err where
    st: "proxy_attempt e cfg url (int a) r1 =
           (Again err, r1, retry_events e req a @ [Slept (backoff_of (int a))])"
    using proxy_attempt_retry [OF fx] by blast
  have d: "d = m - Suc a" using Suc.hyps(2) by simp
  have pre: "\<forall>k. Suc a \<le> k \<and> k < m \<longrightarrow> retryable (client_Do e k req) \<and> ctx_Done e k = None"
    using Suc.prems(1) by simp
  have ih: "proxyWithRetries_from e cfg url (int (Suc a)) (Some err) r1
              (tr @ retry_events e req a @ [Slept (backoff_of (int a))]) =
            (res, r1, (tr @ retry_events e req a @ [Slept (backoff_of (int a))]) @
                      rounds e req [Suc a..<m] @ evs)"
    using Suc.hyps(1) [OF d pre] lt by simp
  have up: "[a..<m] = a # [Suc a..<m]" using lt by (simp add: upt_conv_Cons)
  have le: "int a \<le> Retries cfg" using lt m by simp
  have sa: "int a + 1 = int (Suc a)" by simp
  show ?case
    apply (subst proxyWithRetries_from.simps)
    apply (simp only: le if_True st prod.case step.case sa ih up)
    apply (simp add: rounds_def)
    done
qed

lemma loop_first:
  assumes "createProxyRequest e r url = (Inr req, r1)" and "a \<le> Retries cfg"
  shows "proxyWithRetries_from e cfg url a lastErr r tr =
         proxyWithRetries_from e cfg url a lastErr r1 tr"
proof -
  have "proxy_attempt e cfg url a r = proxy_attempt e cfg url a r1"
    using assms(1) createProxyRequest_again [OF assms(1)] by (simp add: proxy_attempt_def)
  then show ?thesis using assms(2)
    by (subst (1 2) proxyWithRetries_from.simps) simp
qed

lemma proxyWithRetries_run:
  assumes cr: "createProxyRequest e r url = (Inr req, r1)"
    and fin: "proxy_attempt e cfg url (int m) r1 = (Return res, r1, evs)"
    and m: "int m \<le> Retries cfg"
    and retry: "\<forall>k. k < m \<longrightarrow> retryable (client_Do e k req) \<and> ctx_Done e k = None"
  shows "proxyWithRetries e r url cfg = (res, r1, rounds e req [0..<m] @ evs)"
proof -
  have le: "(0::int) \<le> Retries cfg" using m by simp
  have "proxyWithRetries e r url cfg = proxyWithRetries_from e cfg url (int 0) None r1 []"
    using loop_first [OF cr le] by (simp add: proxyWithRetries_def)
  also have "\<dots> = (res, r1, [] @ rounds e req [0..<m] @ evs)"
    by (rule loop_runs_to [OF createProxyRequest_again [OF cr] fin m]) (use retry in auto)
  finally show ?thesis by simp
qed

lemma sleeps_append [simp]: "sleeps (xs @ ys) = sleeps xs @ sleeps ys"
  by (induction xs rule: sleeps.induct) simp_all

lemma attempts_append [simp]: "attempts (xs @ ys) = attempts xs @ attempts ys"
  by (induction xs rule: attempts.induct) simp_all

lemma sleeps_retry_events [simp]: "sleeps (retry_events e req k) = []"
  by (simp add: retry_events_def split: sum.splits)

lemma attempts_retry_events [simp]: "attempts (retry_events e req k) = [k]"
  by (simp add: retry_events_def split: sum.splits)

lemma sleeps_rounds: "sleeps (rounds e req ks) = map (\<lambda>k. backoff_of (int k)) ks"
  by (induction ks) (simp_all add: rounds_def)

lemma attempts_rounds: "attempts (rounds e req ks) = ks"
  by (induction ks) (simp_all add: rounds_def)

lemma backoff_upt:
  "map (\<lambda>k. backoff_of (int k)) [0..<n] = map (\<lambda>i. int i * 100 * Millisecond) [1..<Suc n]"
proof -
  have "[1..<Suc n] = map Suc [0..<n]" by (simp add: map_Suc_upt)
  then show ?thesis by (simp add: backoff_of_def o_def add.commute)
qed

lemma ex_create:
  "createProxyRequest (ex_env codes cs) ex_request ex_url =
     (Inr ex_upstream, ex_request\<lparr>Body := Some (NewReader ''{}'')\<rparr>)"
  by (simp add: createProxyRequest_def ex_env_def ex_request_def ex_upstream_def ex_url_def
       ReadAll_def NewReader_def NewRequestWithContext_def validMethod_def
       validHeaderFieldByte_def copyHeaders_def isHopByHopHeader_def hopByHopHeaders_def
       ToLower_def is_upper_def is_lower_def Header_Add_def Header_Set_def Header_Get_def
       CanonicalMIMEHeaderKey_def getClientIP_def getScheme_def Split_def TrimSpace_def
       is_space_def cut_colon_def Let_def)



section \<open>Which outcomes are retried\<close>

lemma copyResponse_relays:
  assumes "W_Status w = None"
  shows "W_Status (snd (copyResponse w resp)) = Some (StatusCode resp) \<and>
         W_Body (snd (copyResponse w resp)) = W_Body w @ pending (Resp_Body resp)"
  using assms by (simp add: copyResponse_def ReadAll_def WriteHeader_def Write_def Let_def)



section \<open>Cancellation during a backoff\<close>

text \<open>
  Claim C4. Let the attempts \<open>0, ..., k\<close> fail in a retryable way, with a retry left after
  attempt \<open>k\<close>, and let the parent context be done during the backoff that follows attempt
  \<open>k\<close> (and not during an earlier one). Then \<open>proxyWithRetries\<close> returns the context's
  error \<open>ctx.Err()\<close> itself as its result; the attempts it made are \<open>0, ..., k\<close> and no
  other; and the interrupted backoff is the last thing it did.
\<close>

theorem cancellation_during_backoff_ends_the_call:
  assumes "int k < Retries cfg"
    and "createProxyRequest e r url = (Inr req, r1)"
    and "\<forall>j\<le>k. retryable (client_Do e j req)"
    and "\<forall>j<k. ctx_Done e j = None"
    and "ctx_Done e k = Some cerr"
  shows "fst (proxyWithRetries e r url cfg) = Inl cerr \<and>
         attempts (snd (snd (proxyWithRetries e r url cfg))) = [0..<Suc k] \<and>
         last (snd (snd (proxyWithRetries e r url cfg))) = Interrupted (backoff_of (int k))"
proof -
  have fin: "proxy_attempt e cfg url (int k) r1 =
               (Return (Inl cerr), r1, retry_events e req k @ [Interrupted (backoff_of (int k))])"
    using assms(1,3,5)
    by (intro proxy_attempt_cancelled [OF createProxyRequest_again [OF assms(2)]]) simp_all
  have run: "proxyWithRetries e r url cfg =
               (Inl cerr, r1,
                rounds e req [0..<k] @ retry_events e req k @ [Interrupted (backoff_of (int k))])"
    by (rule proxyWithRetries_run [OF assms(2) fin]) (use assms(1,3,4) in simp_all)
  have l: "last (snd (snd (proxyWithRetries e r url cfg))) = Interrupted (backoff_of (int k))"
    by (simp only: run snd_conv last_snoc append_assoc [symmetric])
  show ?thesis using l by (simp add: run attempts_rounds)
qed

theorem cancellation_during_backoff_ends_the_call_witness:
  "fst (proxyWithRetries ex_cancelled ex_request ex_url ex_cfg) = Inl ''context canceled'' \<and>
   attempts (snd (snd (proxyWithRetries ex_cancelled ex_request ex_url ex_cfg))) = [0, 1] \<and>
   last (snd (snd (proxyWithRetries ex_cancelled ex_request ex_url ex_cfg))) =
     Interrupted 200000000"
  using cancellation_during_backoff_ends_the_call
          [of 1 ex_cfg ex_cancelled ex_request ex_url ex_upstream
              "ex_request\<lparr>Body := Some (NewReader ''{}'')\<rparr>" "''context canceled''"]
        ex_create [of "\<lambda>k. 503" "[1]"]
  by (simp add: ex_cancelled_def ex_cfg_def ex_env_def ex_resp_def retryable_def shouldRetry_def
        backoff_of_def Millisecond_def upt_rec)

section \<open>The request body across attempts\<close>

text \<open>
  Claim C3. For a request with a body that can be read to its end (and a target URL and a
  method that net/http accepts), \<open>createProxyRequest\<close> succeeds; the body of the upstream
  request is, byte for byte, what the inbound body held; the request object is left with a
  fresh reader over the same bytes, so reading it afterwards yields them again; and building
  the request once more, as a retry does, gives the same upstream request.
\<close>

theorem request_body_is_replayed:
  assumes "Body r = Some rd" and "failure rd = None"
    and "url_Parse e url = Inr target" and "url_Parse e target = Inr u"
    and "validMethod (Method r)"
  shows "\<exists>req. createProxyRequest e r url =
                 (Inr req, r\<lparr>Body := Some (NewReader (pending rd))\<rparr>) \<and>
               Up_Body req = Some (pending rd) \<and>
               fst (ReadAll (NewReader (pending rd))) = pending rd \<and>
               createProxyRequest e (r\<lparr>Body := Some (NewReader (pending rd))\<rparr>) url =
                 (Inr req, r\<lparr>Body := Some (NewReader (pending rd))\<rparr>)"
proof -
  have m: "Method r \<noteq> []" using assms(5) by (simp add: validMethod_def)
  obtain req where
    cr: "createProxyRequest e r url = (Inr req, r\<lparr>Body := Some (NewReader (pending rd))\<rparr>)"
    and b: "Up_Body req = Some (pending rd)"
    using assms m
    by (simp add: createProxyRequest_def ReadAll_def NewRequestWithContext_def Let_def)
  show ?thesis using cr b createProxyRequest_again [OF cr] by simp
qed

theorem request_body_is_replayed_witness:
  "\<exists>req. createProxyRequest ex_flaky ex_request ex_url =
           (Inr req, ex_request\<lparr>Body := Some (NewReader ''{}'')\<rparr>) \<and>
         Up_Body req = Some ''{}'' \<and>
         fst (ReadAll (NewReader ''{}'')) = ''{}'' \<and>
         createProxyRequest ex_flaky (ex_request\<lparr>Body := Some (NewReader ''{}'')\<rparr>) ex_url =
           (Inr req, ex_request\<lparr>Body := Some (NewReader ''{}'')\<rparr>)"
proof -
  have b: "Body ex_request = Some (Reader ''{}'' None)" by (simp add: ex_request_def)
  have f: "failure (Reader ''{}'' None) = None" by simp
  have p: "url_Parse ex_flaky ex_url = Inr ex_url" by (simp add: ex_flaky_def ex_env_def)
  have m: "validMethod (Method ex_request)"
    by (simp add: ex_request_def validMethod_def validHeaderFieldByte_def)
  show ?thesis using request_body_is_replayed [OF b f p p m] by simp
qed

section \<open>Failures of the proxy, as the client sees them\<close>

lemma HasPrefix_append [simp]: "HasPrefix (p @ s) p"
  by (simp add: HasPrefix_def)

lemma Contains_append: "Contains (xs @ sub @ ys) sub"
proof (induction xs)
  case Nil
  show ?case
  proof (cases "sub @ ys")
    case Nil
    then show ?thesis by simp
  next
    case (Cons a list)
    have "HasPrefix (sub @ ys) sub" by simp
    with Cons show ?thesis by simp
  qed
next
  case (Cons x xs)
  then show ?case by simp
qed

lemma Contains_no_route:
  "Contains (''failed to determine target: '' @ ''no route found for path: '' @ p)
     ''no route found''"
  using Contains_append [of "''failed to determine target: ''" "''no route found''"
                            "'' for path: '' @ p"]
  by simp

lemma handleProxyError_spec:
  assumes "W_Status w = None"
  shows "W_Status (handleProxyError w err) = Some (spec_status (spec_classify err)) \<and>
         W_Body (handleProxyError w err) =
           W_Body w @ error_json (spec_message (spec_classify err)) (spec_code (spec_classify err))"
  using assms
  by (simp add: handleProxyError_def spec_classify_def WriteHeader_def Write_def W_Set_def
        set_cors_headers_def Let_def)



end
